theory Spec2Isabelle
  imports Complex_Main
begin

section \<open>Python numbers and exceptions\<close>

text \<open>
  The coefficient lists of \<^verbatim>\<open>streamlit_app.py\<close> hold Python numbers: \<^verbatim>\<open>int\<close>
  (unbounded) or \<^verbatim>\<open>float\<close>. A float is idealised as a real number: rounding, overflow,
  signed zero, infinities and NaN of IEEE doubles are outside this model. The distinction
  between the two kinds is kept because it decides how a value is displayed
  (\<^verbatim>\<open>str(0)\<close> is \<^verbatim>\<open>0\<close>, \<^verbatim>\<open>str(0.0)\<close> is \<^verbatim>\<open>0.0\<close>) and which kind an operation returns.
\<close>

datatype pynum = PyInt int | PyFloat real

fun py_val :: "pynum \<Rightarrow> real" where
  "py_val (PyInt i) = real_of_int i"
| "py_val (PyFloat r) = r"

datatype error = ZeroDivisionError | IndexError | ValueError

fun py_neg :: "pynum \<Rightarrow> pynum" where
  "py_neg (PyInt i) = PyInt (- i)"
| "py_neg (PyFloat r) = PyFloat (- r)"

fun py_add :: "pynum \<Rightarrow> pynum \<Rightarrow> pynum" where
  "py_add (PyInt i) (PyInt j) = PyInt (i + j)"
| "py_add a b = PyFloat (py_val a + py_val b)"

fun py_sub :: "pynum \<Rightarrow> pynum \<Rightarrow> pynum" where
  "py_sub (PyInt i) (PyInt j) = PyInt (i - j)"
| "py_sub a b = PyFloat (py_val a - py_val b)"

fun py_mul :: "pynum \<Rightarrow> pynum \<Rightarrow> pynum" where
  "py_mul (PyInt i) (PyInt j) = PyInt (i * j)"
| "py_mul a b = PyFloat (py_val a * py_val b)"

text \<open>\<^verbatim>\<open>x ** k\<close> for an \<^verbatim>\<open>int\<close> exponent \<open>k \<ge> 0\<close> (\<^verbatim>\<open>0 ** 0\<close> is 1).\<close>

fun py_pow :: "pynum \<Rightarrow> nat \<Rightarrow> pynum" where
  "py_pow (PyInt i) k = PyInt (i ^ k)"
| "py_pow (PyFloat r) k = PyFloat (r ^ k)"

text \<open>\<^verbatim>\<open>d ** 0.5\<close>; the source evaluates it only under the guard \<^verbatim>\<open>d >= 0\<close>.\<close>

definition py_pow_half :: "pynum \<Rightarrow> pynum" where
  "py_pow_half d = PyFloat (sqrt (py_val d))"

text \<open>True division \<^verbatim>\<open>a / b\<close>: always a float, \<^verbatim>\<open>ZeroDivisionError\<close> on a zero divisor.\<close>

definition py_truediv :: "pynum \<Rightarrow> pynum \<Rightarrow> error + pynum" where
  "py_truediv a b =
     (if py_val b = 0 then Inl ZeroDivisionError else Inr (PyFloat (py_val a / py_val b)))"

text \<open>
  Subscription \<^verbatim>\<open>xs[i]\<close> of a list: an index from \<open>-len\<close> up to \<open>-1\<close> is taken from
  the end, and an index outside \<open>-len .. len - 1\<close> raises \<^verbatim>\<open>IndexError\<close>.
\<close>

definition py_index :: "'a list \<Rightarrow> int \<Rightarrow> error + 'a" where
  "py_index xs i =
     (if 0 \<le> i \<and> i < int (length xs) then Inr (xs ! nat i)
      else if i < 0 \<and> - int (length xs) \<le> i then Inr (xs ! nat (int (length xs) + i))
      else Inl IndexError)"


section \<open>RationalFunction\<close>

record RationalFunction =
  numerator :: "pynum list"
  denominator :: "pynum list"
  level :: int
  name :: string
  vertical_asymptotes :: "pynum list"
  horizontal_asymptote :: "pynum option"
  x_intercepts :: "pynum list"
  y_intercept :: "pynum option"

text \<open>
  \<^verbatim>\<open>find_vertical_asymptotes\<close>: the branches on \<^verbatim>\<open>len(self.denominator)\<close> are the
  patterns; a branch whose inner guard fails falls through to \<^verbatim>\<open>return []\<close>.
\<close>

fun find_vertical_asymptotes :: "pynum list \<Rightarrow> error + pynum list" where
  "find_vertical_asymptotes [a, b] =
     (if py_val a \<noteq> 0 then
        (case py_truediv (py_neg b) a of
           Inl e \<Rightarrow> Inl e
         | Inr r \<Rightarrow> Inr [r])
      else Inr [])"
| "find_vertical_asymptotes [a, b, c] =
     (if py_val a \<noteq> 0 then
        (let discriminant = py_sub (py_pow b 2) (py_mul (py_mul (PyInt 4) a) c) in
         if py_val discriminant \<ge> 0 then
           (let sqrt_disc = py_pow_half discriminant in
            case py_truediv (py_add (py_neg b) sqrt_disc) (py_mul (PyInt 2) a) of
              Inl e \<Rightarrow> Inl e
            | Inr r1 \<Rightarrow>
               (case py_truediv (py_sub (py_neg b) sqrt_disc) (py_mul (PyInt 2) a) of
                  Inl e \<Rightarrow> Inl e
                | Inr r2 \<Rightarrow> Inr [r1, r2]))
         else Inr [])
      else Inr [])"
| "find_vertical_asymptotes den = Inr []"

definition find_horizontal_asymptote :: "pynum list \<Rightarrow> pynum list \<Rightarrow> error + pynum option" where
  "find_horizontal_asymptote num den =
     (let num_degree = int (length num) - 1;
          den_degree = int (length den) - 1
      in if num_degree < den_degree then Inr (Some (PyInt 0))
         else if num_degree = den_degree then
           (case py_index num 0 of
              Inl e \<Rightarrow> Inl e
            | Inr n0 \<Rightarrow>
               (case py_index den 0 of
                  Inl e \<Rightarrow> Inl e
                | Inr d0 \<Rightarrow>
                   (case py_truediv n0 d0 of
                      Inl e \<Rightarrow> Inl e
                    | Inr r \<Rightarrow> Inr (Some r))))
         else Inr None)"

fun find_x_intercepts :: "pynum list \<Rightarrow> error + pynum list" where
  "find_x_intercepts [a, b] =
     (if py_val a \<noteq> 0 then
        (case py_truediv (py_neg b) a of
           Inl e \<Rightarrow> Inl e
         | Inr r \<Rightarrow> Inr [r])
      else Inr [])"
| "find_x_intercepts num = Inr []"

definition find_y_intercept :: "pynum list \<Rightarrow> pynum list \<Rightarrow> error + pynum option" where
  "find_y_intercept num den =
     (case py_index den (- 1) of
        Inl e \<Rightarrow> Inl e
      | Inr d \<Rightarrow>
         if py_val d \<noteq> 0 then
           (case py_index num (- 1) of
              Inl e \<Rightarrow> Inl e
            | Inr n \<Rightarrow>
               (case py_truediv n d of
                  Inl e \<Rightarrow> Inl e
                | Inr r \<Rightarrow> Inr (Some r)))
         else Inr None)"

text \<open>
  \<^verbatim>\<open>RationalFunction.__init__\<close>: the four derived fields are computed in the source's
  order; the first exception leaves no object.
\<close>

definition RationalFunction_init ::
  "pynum list \<Rightarrow> pynum list \<Rightarrow> int \<Rightarrow> string \<Rightarrow> error + RationalFunction" where
  "RationalFunction_init num den lvl nm =
     (case find_vertical_asymptotes den of
        Inl e \<Rightarrow> Inl e
      | Inr va \<Rightarrow>
         (case find_horizontal_asymptote num den of
            Inl e \<Rightarrow> Inl e
          | Inr ha \<Rightarrow>
             (case find_x_intercepts num of
                Inl e \<Rightarrow> Inl e
              | Inr xi \<Rightarrow>
                 (case find_y_intercept num den of
                    Inl e \<Rightarrow> Inl e
                  | Inr yi \<Rightarrow>
                     Inr \<lparr>numerator = num, denominator = den, level = lvl, name = nm,
                          vertical_asymptotes = va, horizontal_asymptote = ha,
                          x_intercepts = xi, y_intercept = yi\<rparr>))))"


section \<open>Evaluation\<close>



datatype result = Number pynum | PosInf | NegInf | Results "result list"





section \<open>Display strings\<close>

text \<open>\<^verbatim>\<open>str\<close> of a Python int: decimal digits, a leading minus sign when negative.\<close>

fun str_nat :: "nat \<Rightarrow> string" where
  "str_nat n =
     (if n < 10 then [''0123456789'' ! n]
      else str_nat (n div 10) @ [''0123456789'' ! (n mod 10)])"

declare str_nat.simps [simp del]

definition str_int :: "int \<Rightarrow> string" where
  "str_int i = (if i < 0 then CHR ''-'' # str_nat (nat (- i)) else str_nat (nat i))"

text \<open>
  \<^verbatim>\<open>str\<close> of a Python number, as an f-string inserts it. The digits Python prints for a
  float (\<^verbatim>\<open>repr\<close>, the shortest decimal that reads back as the same double) belong to the
  language, not to this program: they are the parameter \<open>fr\<close> of every function that
  displays a float.
\<close>

fun py_str :: "(real \<Rightarrow> string) \<Rightarrow> pynum \<Rightarrow> string" where
  "py_str fr (PyInt i) = str_int i"
| "py_str fr (PyFloat r) = fr r"

text \<open>\<^verbatim>\<open>int(coef)\<close>: truncation towards zero.\<close>

fun py_int :: "pynum \<Rightarrow> int" where
  "py_int (PyInt i) = i"
| "py_int (PyFloat r) = (if 0 \<le> r then \<lfloor>r\<rfloor> else - \<lfloor>- r\<rfloor>)"

text \<open>\<^verbatim>\<open>int(coef) if coef == int(coef) else coef\<close>, formatted.\<close>

definition coef_str :: "(real \<Rightarrow> string) \<Rightarrow> pynum \<Rightarrow> string" where
  "coef_str fr coef =
     (if py_val coef = real_of_int (py_int coef) then str_int (py_int coef)
      else py_str fr coef)"

text \<open>
  The text of one term, for a non-zero coefficient and \<^verbatim>\<open>power = degree - i\<close>
  (written \<open>pw\<close>): the three branches of the loop body of \<^verbatim>\<open>format_polynomial\<close>.
\<close>

definition format_term :: "(real \<Rightarrow> string) \<Rightarrow> pynum \<Rightarrow> int \<Rightarrow> string" where
  "format_term fr coef pw =
     (if pw = 0 then coef_str fr coef
      else if pw = 1 then
        (if py_val coef = 1 then ''x''
         else if py_val coef = - 1 then ''-x''
         else coef_str fr coef @ ''x'')
      else
        (if py_val coef = 1 then ''x^'' @ str_int pw
         else if py_val coef = - 1 then ''-x^'' @ str_int pw
         else coef_str fr coef @ ''x^'' @ str_int pw))"

text \<open>
  The first loop of \<^verbatim>\<open>format_polynomial\<close>, over \<^verbatim>\<open>enumerate(coeffs)\<close>: a zero
  coefficient is skipped (\<^verbatim>\<open>continue\<close>), any other appends one term.
\<close>

fun format_terms :: "(real \<Rightarrow> string) \<Rightarrow> int \<Rightarrow> (nat \<times> pynum) list \<Rightarrow> string list" where
  "format_terms fr degree [] = []"
| "format_terms fr degree ((i, coef) # rest) =
     (if py_val coef = 0 then format_terms fr degree rest
      else format_term fr coef (degree - int i) # format_terms fr degree rest)"

text \<open>\<^verbatim>\<open>term.startswith('-')\<close>.\<close>

definition startswith_minus :: "string \<Rightarrow> bool" where
  "startswith_minus s = (take 1 s = ''-'')"

text \<open>The body of the second loop: the separator is chosen by the first character.\<close>

definition append_term :: "string \<Rightarrow> string \<Rightarrow> string" where
  "append_term result term =
     (if startswith_minus term then result @ '' - '' @ drop 1 term
      else result @ '' + '' @ term)"

definition format_polynomial :: "(real \<Rightarrow> string) \<Rightarrow> pynum list \<Rightarrow> string" where
  "format_polynomial fr coeffs =
     (if coeffs = [] then ''0''
      else
        (let degree = int (length coeffs) - 1;
             terms = format_terms fr degree (enumerate 0 coeffs)
         in if terms = [] then ''0''
            else foldl append_term (hd terms) (tl terms)))"

definition get_equation :: "(real \<Rightarrow> string) \<Rightarrow> RationalFunction \<Rightarrow> string" where
  "get_equation fr f =
     ''('' @ format_polynomial fr (numerator f) @ '') / (''
       @ format_polynomial fr (denominator f) @ '')''"


section \<open>Questions\<close>

record Question =
  q_function :: RationalFunction
  q_type :: string
  question_text :: string
  options :: "string list"
  correct_answer :: string
  explanation :: string
  points :: int

text \<open>
  The three blocks of \<^verbatim>\<open>create_questions\<close>, each giving the questions it appends.
  \<^verbatim>\<open>va1, va2 = sorted(...)\<close> unpacks exactly two values and raises \<^verbatim>\<open>ValueError\<close>
  on any other number; \<^verbatim>\<open>sorted\<close> is stable and compares by numeric value.
\<close>

definition vertical_asymptote_questions ::
  "(real \<Rightarrow> string) \<Rightarrow> RationalFunction \<Rightarrow> error + Question list" where
  "vertical_asymptote_questions fr f =
     (if vertical_asymptotes f \<noteq> [] then
        (let va = hd (vertical_asymptotes f) in
         if length (vertical_asymptotes f) = 1 then
           Inr [\<lparr>q_function = f, q_type = ''vertical_asymptote'',
                 question_text = ''What is the vertical asymptote of '' @ name f @ ''?'',
                 options = [''x = '' @ py_str fr va,
                            ''x = '' @ py_str fr (py_add va (PyInt 1)),
                            ''y = '' @ py_str fr va,
                            ''No vertical asymptote''],
                 correct_answer = ''x = '' @ py_str fr va,
                 explanation =
                   ''The vertical asymptote occurs where the denominator equals zero.'',
                 points = 100\<rparr>]
         else
           (case sort_key py_val (vertical_asymptotes f) of
              [va1, va2] \<Rightarrow>
                Inr [\<lparr>q_function = f, q_type = ''vertical_asymptote'',
                      question_text = ''What are the vertical asymptotes of '' @ name f @ ''?'',
                      options = [''x = '' @ py_str fr va1 @ '' and x = '' @ py_str fr va2,
                                 ''x = '' @ py_str fr va1,
                                 ''x = '' @ py_str fr va2,
                                 ''No vertical asymptotes''],
                      correct_answer =
                        ''x = '' @ py_str fr va1 @ '' and x = '' @ py_str fr va2,
                      explanation =
                        ''The vertical asymptotes occur where the denominator equals zero.'',
                      points = 150\<rparr>]
            | _ \<Rightarrow> Inl ValueError))
      else Inr [])"

definition horizontal_asymptote_questions ::
  "(real \<Rightarrow> string) \<Rightarrow> RationalFunction \<Rightarrow> Question list" where
  "horizontal_asymptote_questions fr f =
     (case horizontal_asymptote f of
        Some ha \<Rightarrow>
          [\<lparr>q_function = f, q_type = ''horizontal_asymptote'',
            question_text = ''What is the horizontal asymptote of '' @ name f @ ''?'',
            options = [''y = '' @ py_str fr ha,
                       ''y = '' @ py_str fr (py_add ha (PyInt 1)),
                       ''y = 0'',
                       ''No horizontal asymptote''],
            correct_answer = ''y = '' @ py_str fr ha,
            explanation =
              ''Compare the degrees of numerator and denominator to find the horizontal asymptote.'',
            points = 100\<rparr>]
      | None \<Rightarrow> [])"

definition x_intercept_questions ::
  "(real \<Rightarrow> string) \<Rightarrow> RationalFunction \<Rightarrow> Question list" where
  "x_intercept_questions fr f =
     (if x_intercepts f \<noteq> [] then
        (let xi = hd (x_intercepts f) in
         [\<lparr>q_function = f, q_type = ''x_intercept'',
           question_text = ''What is the x-intercept of '' @ name f @ ''?'',
           options = [''x = '' @ py_str fr xi,
                      ''x = '' @ py_str fr (py_add xi (PyInt 1)),
                      ''x = 0'',
                      ''No x-intercept''],
           correct_answer = ''x = '' @ py_str fr xi,
           explanation = ''X-intercepts occur where the numerator equals zero.'',
           points = 100\<rparr>])
      else [])"

definition create_questions ::
  "(real \<Rightarrow> string) \<Rightarrow> RationalFunction \<Rightarrow> error + Question list" where
  "create_questions fr f =
     (case vertical_asymptote_questions fr f of
        Inl e \<Rightarrow> Inl e
      | Inr qs \<Rightarrow>
          Inr (qs @ horizontal_asymptote_questions fr f @ x_intercept_questions fr f))"



section \<open>Reference notions of the specification\<close>


text \<open>
  The formatter as the specification words it (4.1). The terms are those of the non-zero
  coefficients, in descending degree, term \<open>i\<close> having degree \<open>degree - i\<close>; they are
  joined from the left, a term of negative coefficient by \<^verbatim>\<open>" - "\<close> and its text
  without the sign, any other by \<^verbatim>\<open>" + "\<close> and its text; no term at all gives
  \<^verbatim>\<open>"0"\<close>.
\<close>

definition nonzero_terms :: "pynum list \<Rightarrow> (pynum \<times> int) list" where
  "nonzero_terms coeffs =
     map (\<lambda>i. (coeffs ! i, int (length coeffs) - 1 - int i))
       (filter (\<lambda>i. py_val (coeffs ! i) \<noteq> 0) [0..<length coeffs])"

fun join_by_sign :: "(real \<Rightarrow> string) \<Rightarrow> (pynum \<times> int) list \<Rightarrow> string" where
  "join_by_sign fr [] = ''0''"
| "join_by_sign fr ((c, p) # rest) =
     format_term fr c p @
     concat (map (\<lambda>(c, p). if py_val c < 0 then '' - '' @ drop 1 (format_term fr c p)
                            else '' + '' @ format_term fr c p) rest)"



section \<open>Arithmetic of the number model\<close>








lemmas init_defs =
  RationalFunction_init_def find_horizontal_asymptote_def find_y_intercept_def
  py_index_def py_truediv_def py_pow_half_def


section \<open>The derived fields\<close>



subsection \<open>Vertical asymptotes\<close>







subsection \<open>Horizontal asymptote\<close>



text \<open>
  Where the degrees are equal and the ratio is not defined, the method raises:
  \<^verbatim>\<open>IndexError\<close> on two empty lists, \<^verbatim>\<open>ZeroDivisionError\<close> on a zero leading
  coefficient of the denominator.
\<close>

lemma find_horizontal_asymptote_raises:
  "find_horizontal_asymptote [] [] = Inl IndexError"
  "length num = length den \<Longrightarrow> den \<noteq> [] \<Longrightarrow> py_val (den ! 0) = 0 \<Longrightarrow>
   find_horizontal_asymptote num den = Inl ZeroDivisionError"
  by (cases den; auto simp: find_horizontal_asymptote_def py_index_def py_truediv_def)+

text \<open>
  C3. The claim that no constructor call with a denominator other than the all-zero
  sequence raises fails on the code: the numerator \<open>[1, 0]\<close> over the denominator
  \<open>[0, 1]\<close> (the constant polynomial 1) has equal lengths and a zero leading
  denominator coefficient, and \<^verbatim>\<open>find_horizontal_asymptote\<close> divides by it unguarded,
  where \<^verbatim>\<open>find_vertical_asymptotes\<close>, \<^verbatim>\<open>find_x_intercepts\<close> and \<^verbatim>\<open>find_y_intercept\<close>
  each test their divisor first.
\<close>

theorem init_zero_leading_denominator_raises:
  "RationalFunction_init [PyInt 1, PyInt 0] [PyInt 0, PyInt 1] 1 ''f(x) = x/(0x+1)''
     = Inl ZeroDivisionError"
  by (simp add: init_defs)

subsection \<open>Order of the vertical asymptotes\<close>





section \<open>Properties of evaluate\<close>














section \<open>Formatting a polynomial\<close>

text \<open>Evaluation of \<open>str_nat\<close> on literals only: the recursive equation loops otherwise.\<close>

lemma str_nat_0: "str_nat 0 = ''0''"
  by (simp add: str_nat.simps)

lemma str_nat_1: "str_nat 1 = ''1''"
  by (simp add: str_nat.simps)

lemma str_nat_Suc_0: "str_nat (Suc 0) = ''1''"
  by (simp add: str_nat.simps)

lemma str_nat_numeral:
  "str_nat (numeral k) =
     (if (numeral k :: nat) < 10 then [''0123456789'' ! numeral k]
      else str_nat (numeral k div 10) @ [''0123456789'' ! (numeral k mod 10)])"
  by (rule str_nat.simps)

lemmas str_simps = str_int_def str_nat_0 str_nat_1 str_nat_Suc_0 str_nat_numeral

lemma digit_not_minus: "n < 10 \<Longrightarrow> ''0123456789'' ! n \<noteq> CHR ''-''"
proof -
  assume "n < 10"
  then have "n \<in> {0,1,2,3,4,5,6,7,8,9}" by auto
  then show ?thesis by auto
qed

lemma str_nat_nonempty: "str_nat n \<noteq> []"
  by (subst str_nat.simps) simp

lemma str_nat_first: "\<not> startswith_minus (str_nat n)"
proof (induction n rule: str_nat.induct)
  case (1 n)
  show ?case
  proof (cases "n < 10")
    case True
    then show ?thesis
      by (simp add: str_nat.simps[of n] digit_not_minus startswith_minus_def)
  next
    case False
    with 1 have ih: "\<not> startswith_minus (str_nat (n div 10))" by simp
    have "str_nat n = str_nat (n div 10) @ [''0123456789'' ! (n mod 10)]"
      using False by (simp add: str_nat.simps[of n])
    then show ?thesis using ih str_nat_nonempty[of "n div 10"]
      by (cases "str_nat (n div 10)") (auto simp: startswith_minus_def)
  qed
qed

lemma str_int_first: "startswith_minus (str_int i) = (i < 0)"
  using str_nat_first[of "nat i"] by (simp add: str_int_def startswith_minus_def)

lemma py_int_sign:
  assumes "py_val c = real_of_int (py_int c)"
  shows "(py_int c < 0) = (py_val c < 0)"
  using assms by simp

lemma coef_str_first:
  assumes "\<forall>r. startswith_minus (fr r) = (r < 0)"
  shows "startswith_minus (coef_str fr c) = (py_val c < 0)"
proof (cases "py_val c = real_of_int (py_int c)")
  case True
  then show ?thesis using py_int_sign[OF True] by (simp add: coef_str_def str_int_first)
next
  case False
  then obtain r where "c = PyFloat r" by (cases c) auto
  then show ?thesis using False assms by (simp add: coef_str_def)
qed

lemma startswith_minus_append_x:
  "startswith_minus (s @ CHR ''x'' # t) = startswith_minus s"
  by (cases s) (auto simp: startswith_minus_def)

lemma format_term_first:
  assumes "\<forall>r. startswith_minus (fr r) = (r < 0)"
  shows "startswith_minus (format_term fr c p) = (py_val c < 0)"
proof -
  have x: "\<not> startswith_minus (CHR ''x'' # t)" "startswith_minus (CHR ''-'' # t)" for t
    by (simp_all add: startswith_minus_def)
  show ?thesis
    using coef_str_first[OF assms, of c]
    by (auto simp: format_term_def startswith_minus_append_x x)
qed

lemma format_terms_enumerate:
  "format_terms fr d (enumerate k cs) =
     map (\<lambda>(c, p). format_term fr c p)
       (map (\<lambda>i. (cs ! i, d - int (k + i)))
          (filter (\<lambda>i. py_val (cs ! i) \<noteq> 0) [0..<length cs]))"
proof (induction cs arbitrary: k)
  case Nil
  then show ?case by simp
next
  case (Cons c cs)
  have upt: "[0..<length (c # cs)] = 0 # map Suc [0..<length cs]"
    by (simp add: upt_conv_Cons map_Suc_upt del: upt_Suc)
  show ?case
    unfolding upt
    by (simp add: Cons.IH[of "Suc k"] filter_map comp_def ac_simps del: upt_Suc)
qed

lemma foldl_append_term:
  "foldl append_term t ts =
     t @ concat (map (\<lambda>s. if startswith_minus s then '' - '' @ drop 1 s else '' + '' @ s) ts)"
  by (induction ts arbitrary: t) (simp_all add: append_term_def)

lemma format_polynomial_terms:
  "format_polynomial fr coeffs =
     (case map (\<lambda>(c, p). format_term fr c p) (nonzero_terms coeffs) of
        [] \<Rightarrow> ''0''
      | t # ts \<Rightarrow> foldl append_term t ts)"
proof (cases "coeffs = []")
  case True
  then show ?thesis by (simp add: format_polynomial_def nonzero_terms_def)
next
  case False
  have "format_terms fr (int (length coeffs) - 1) (enumerate 0 coeffs) =
          map (\<lambda>(c, p). format_term fr c p) (nonzero_terms coeffs)"
    by (simp add: format_terms_enumerate nonzero_terms_def)
  then show ?thesis using False
    by (simp add: format_polynomial_def Let_def split: list.splits)
qed

lemma format_polynomial_join:
  assumes "\<forall>r. startswith_minus (fr r) = (r < 0)"
  shows "format_polynomial fr coeffs = join_by_sign fr (nonzero_terms coeffs)"
proof (cases "nonzero_terms coeffs")
  case Nil
  then show ?thesis by (simp add: format_polynomial_terms)
next
  case (Cons cp rest)
  obtain c p where cp: "cp = (c, p)" by (cases cp)
  have key: "(\<lambda>s. if startswith_minus s then '' - '' @ drop 1 s else '' + '' @ s)
               \<circ> (\<lambda>(c, p). format_term fr c p) =
             (\<lambda>(c, p). if py_val c < 0 then '' - '' @ drop 1 (format_term fr c p)
                            else '' + '' @ format_term fr c p)"
    by (auto simp: fun_eq_iff format_term_first[OF assms])
  show ?thesis
    by (simp add: format_polynomial_terms Cons cp foldl_append_term key)
qed

lemma format_polynomial_all_zero:
  assumes "\<forall>c\<in>set coeffs. py_val c = 0"
  shows "format_polynomial fr coeffs = ''0''"
proof -
  have "nonzero_terms coeffs = []"
    using assms by (auto simp: nonzero_terms_def filter_empty_conv)
  then show ?thesis by (simp add: format_polynomial_terms)
qed


text \<open>
  C8. Provided Python's float display starts with a minus sign exactly for the negative
  floats: \<^verbatim>\<open>format_polynomial\<close> leaves out the terms of zero coefficients and joins the
  others, in descending degree, with \<^verbatim>\<open>" + "\<close> or \<^verbatim>\<open>" - "\<close> by the sign of the
  coefficient; it returns \<^verbatim>\<open>"0"\<close> when all coefficients are zero (also for the empty
  list); and \<open>[1, 0, 1]\<close> gives \<^verbatim>\<open>x^2 + 1\<close>, \<open>[1, -1]\<close> gives \<^verbatim>\<open>x - 1\<close>, \<open>[0, 0]\<close> gives
  \<^verbatim>\<open>0\<close>.
\<close>

theorem format_polynomial_joined:
  "((\<forall>r. startswith_minus (fr r) = (r < 0)) \<longrightarrow>
      format_polynomial fr coeffs = join_by_sign fr (nonzero_terms coeffs)) \<and>
   ((\<forall>c\<in>set coeffs. py_val c = 0) \<longrightarrow> format_polynomial fr coeffs = ''0'') \<and>
   format_polynomial fr [PyInt 1, PyInt 0, PyInt 1] = ''x^2 + 1'' \<and>
   format_polynomial fr [PyInt 1, PyInt (- 1)] = ''x - 1'' \<and>
   format_polynomial fr [PyInt 0, PyInt 0] = ''0''"
proof (intro conjI impI)
  assume "\<forall>r. startswith_minus (fr r) = (r < 0)"
  then show "format_polynomial fr coeffs = join_by_sign fr (nonzero_terms coeffs)"
    by (rule format_polynomial_join)
next
  assume "\<forall>c\<in>set coeffs. py_val c = 0"
  then show "format_polynomial fr coeffs = ''0''"
    by (rule format_polynomial_all_zero)
next
  show "format_polynomial fr [PyInt 1, PyInt 0, PyInt 1] = ''x^2 + 1''"
    by (simp add: format_polynomial_def format_term_def coef_str_def str_simps append_term_def
        startswith_minus_def)
next
  show "format_polynomial fr [PyInt 1, PyInt (- 1)] = ''x - 1''"
    by (simp add: format_polynomial_def format_term_def coef_str_def str_simps append_term_def
        startswith_minus_def)
next
  show "format_polynomial fr [PyInt 0, PyInt 0] = ''0''"
    by (simp add: format_polynomial_def)
qed

lemma nonzero_terms_example: "nonzero_terms [PyInt 1, PyFloat (- 5 / 2), PyInt 0, PyFloat (5 / 2)] =
       [(PyInt 1, 3), (PyFloat (- 5 / 2), 2), (PyFloat (5 / 2), 0)]"
  by (simp add: nonzero_terms_def upt_rec)

theorem format_polynomial_joined_witness:
  "(\<forall>r::real. startswith_minus (if r < 0 then ''-2.5'' else ''2.5'') = (r < 0)) \<and>
   format_polynomial (\<lambda>r. if r < 0 then ''-2.5'' else ''2.5'')
     [PyInt 1, PyFloat (- 5 / 2), PyInt 0, PyFloat (5 / 2)] = ''x^3 - 2.5x^2 + 2.5'' \<and>
   py_val (PyInt 0) = 0 \<and> py_val (PyFloat 0) = 0 \<and>
   format_polynomial (\<lambda>r. if r < 0 then ''-2.5'' else ''2.5'') [PyInt 0, PyFloat 0] = ''0''"
proof -
  let ?fr = "\<lambda>r::real. if r < 0 then ''-2.5'' else ''2.5''"
  have h: "\<forall>r. startswith_minus (?fr r) = (r < 0)"
    by (simp add: startswith_minus_def)
  have z: "\<forall>c\<in>set [PyInt 0, PyFloat 0]. py_val c = 0" by simp
  have j: "join_by_sign ?fr [(PyInt 1, 3), (PyFloat (- 5 / 2), 2), (PyFloat (5 / 2), 0)]
             = ''x^3 - 2.5x^2 + 2.5''"
    by (simp add: format_term_def coef_str_def str_simps)
  have a: "format_polynomial ?fr [PyInt 1, PyFloat (- 5 / 2), PyInt 0, PyFloat (5 / 2)]
             = ''x^3 - 2.5x^2 + 2.5''"
    using format_polynomial_joined[of ?fr
        "[PyInt 1, PyFloat (- 5 / 2), PyInt 0, PyFloat (5 / 2)]",
        THEN conjunct1, THEN mp, OF h]
    by (simp only: nonzero_terms_example j)
  have b: "format_polynomial ?fr [PyInt 0, PyFloat 0] = ''0''"
    by (rule format_polynomial_joined[of ?fr "[PyInt 0, PyFloat 0]",
          THEN conjunct2, THEN conjunct1, THEN mp, OF z])
  show ?thesis by (intro conjI) (rule h a b | simp)+
qed


section \<open>Properties of create_questions\<close>

lemmas question_defs =
  create_questions_def vertical_asymptote_questions_def horizontal_asymptote_questions_def
  x_intercept_questions_def

text \<open>
  C1. The claim fails on the code for the first function of \<^verbatim>\<open>create_sample_functions\<close>,
  \<^verbatim>\<open>RationalFunction([1], [1, 0], 1, "f(x) = 1/x")\<close>: its horizontal asymptote is the
  int 0, and the horizontal-asymptote question lists the correct answer \<^verbatim>\<open>y = 0\<close> twice,
  once as the answer and once as the fixed distractor.
\<close>

theorem horizontal_zero_answer_twice:
  "\<exists>f va_q ha_q.
     RationalFunction_init [PyInt 1] [PyInt 1, PyInt 0] 1 ''f(x) = 1/x'' = Inr f \<and>
     horizontal_asymptote f = Some (PyInt 0) \<and>
     create_questions fr f = Inr [va_q, ha_q] \<and>
     q_type ha_q = ''horizontal_asymptote'' \<and>
     options ha_q = [''y = 0'', ''y = 1'', ''y = 0'', ''No horizontal asymptote''] \<and>
     correct_answer ha_q = ''y = 0'' \<and>
     count_list (options ha_q) (correct_answer ha_q) = 2 \<and>
     \<not> distinct (options ha_q)"
  by (simp add: init_defs question_defs str_simps)

text \<open>
  What the code does decide the points by: the number of entries of the list
  \<open>vertical_asymptotes\<close>, equal or not. Every other question carries 100 points.
\<close>

lemma create_questions_points:
  assumes "create_questions fr f = Inr qs" and "q \<in> set qs"
  shows "points q =
           (if q_type q = ''vertical_asymptote'' \<and> length (vertical_asymptotes f) \<noteq> 1
            then 150 else 100)"
  using assms
  by (auto simp: question_defs Let_def split: if_splits sum.splits list.splits option.splits)


end
